theory Spec2Isabelle
  imports Main
begin

section \<open>Go strings\<close>

text \<open>
  A Go string is a sequence of bytes, here a \<open>string\<close> (a list of 8-bit characters).
  Text outside ASCII is present as its UTF-8 bytes, as in the compiled program.
  The functions of this section are those of Go's package \<open>strings\<close> that
  \<open>main.go\<close> calls.
\<close>

definition HasPrefix :: "string \<Rightarrow> string \<Rightarrow> bool" where
  \<comment> \<open>\<open>strings.HasPrefix(s, prefix)\<close>\<close>
  "HasPrefix s pre = (take (length pre) s = pre)"

fun Contains :: "string \<Rightarrow> string \<Rightarrow> bool" where
  \<comment> \<open>\<open>strings.Contains(s, substr)\<close>: \<open>substr\<close> occurs at some offset of \<open>s\<close>\<close>
  "Contains [] sub = (sub = [])"
| "Contains (c # cs) sub = (HasPrefix (c # cs) sub \<or> Contains cs sub)"

definition Trim :: "string \<Rightarrow> string \<Rightarrow> string" where
  \<comment> \<open>\<open>strings.Trim(s, cutset)\<close> for a cutset of ASCII bytes\<close>
  "Trim s cutset =
     rev (dropWhile (\<lambda>c. c \<in> set cutset) (rev (dropWhile (\<lambda>c. c \<in> set cutset) s)))"

fun Replace :: "string \<Rightarrow> string \<Rightarrow> string \<Rightarrow> string" where
  \<comment> \<open>\<open>strings.Replace(s, old, new, -1)\<close>: every non-overlapping occurrence of \<open>old\<close>,
      found from left to right, becomes \<open>new\<close>. The program passes a non-empty \<open>old\<close>
      at each call; the empty one (which Go matches between runes) is left out.\<close>
  "Replace [] (k # ks) new = []"
| "Replace (c # cs) (k # ks) new =
     (if HasPrefix (c # cs) (k # ks) then new @ Replace (drop (length ks) cs) (k # ks) new
      else c # Replace cs (k # ks) new)"

fun Join :: "string list \<Rightarrow> string \<Rightarrow> string" where
  \<comment> \<open>\<open>strings.Join(a, sep)\<close>\<close>
  "Join [] sep = []"
| "Join [x] sep = x"
| "Join (x # y # ys) sep = x @ sep @ Join (y # ys) sep"

definition asciiLower :: "char \<Rightarrow> char" where
  "asciiLower c =
     (if 65 \<le> (of_char c :: nat) \<and> (of_char c :: nat) \<le> 90
      then char_of ((of_char c :: nat) + 32) else c)"

definition isASCII :: "string \<Rightarrow> bool" where
  "isASCII s = list_all (\<lambda>c. (of_char c :: nat) < 128) s"

definition asciiSpace :: "string" where
  "asciiSpace = [CHR 0x09, CHR 0x0A, CHR 0x0B, CHR 0x0C, CHR 0x0D, CHR '' '']"

fun asciiFields :: "string \<Rightarrow> string \<Rightarrow> string list" where
  \<comment> \<open>the fields of an ASCII string; the first argument is the field being read, reversed\<close>
  "asciiFields cur [] = (if cur = [] then [] else [rev cur])"
| "asciiFields cur (c # cs) =
     (if c \<in> set asciiSpace
      then (if cur = [] then asciiFields [] cs else rev cur # asciiFields [] cs)
      else asciiFields (c # cur) cs)"

section \<open>Data of the libraries\<close>

datatype NodeType = ErrorNode | TextNode | DocumentNode | ElementNode | CommentNode | DoctypeNode

record Attribute =
  Namespace :: string
  Key :: string
  Val :: string

text \<open>
  \<open>html.Node\<close>. \<open>DataAtom\<close> is written as the tag name it stands for (\<open>atom.Img\<close> is
  \<open>''img''\<close>, the zero atom the empty string); \<open>FirstChild\<close> and \<open>NextSibling\<close>
  enumerate \<open>Children\<close> in document order.
\<close>

datatype Node =
  Node (Type: NodeType) (DataAtom: string) (Data: string) (Attr: "Attribute list")
       (Children: "Node list")

text \<open>
  A non-nil \<open>*html.Node\<close>: the node it points to and that node's \<open>Parent\<close> field,
  \<open>None\<close> for nil.
\<close>

datatype NodePtr = At (Parent: "NodePtr option") (Deref: Node)

record Post =
  Id :: string
  UserId :: string
  ChannelId :: string
  RootId :: string
  Message :: string

text \<open>
  What the program uses from outside its own source and what cannot be computed from the
  bytes alone is a parameter of the model: the rune-wise fallbacks of package
  \<open>strings\<close>, which consult the tables of package \<open>unicode\<close> as soon as a string
  has a byte outside ASCII, the web (\<open>http.Get\<close> followed by \<open>html.Parse\<close>) and the
  JSON decoder of the chat platform's package \<open>model\<close>.
\<close>

record externals =
  mapToLower :: "string \<Rightarrow> string"
    \<comment> \<open>\<open>strings.Map(unicode.ToLower, s)\<close>, for an \<open>s\<close> with a non-ASCII byte\<close>
  trimFuncIsSpace :: "string \<Rightarrow> string"
    \<comment> \<open>\<open>strings.TrimFunc(s, unicode.IsSpace)\<close>, for an \<open>s\<close> with a non-ASCII byte\<close>
  fieldsFuncIsSpace :: "string \<Rightarrow> string list"
    \<comment> \<open>\<open>strings.FieldsFunc(s, unicode.IsSpace)\<close>, for an \<open>s\<close> with a non-ASCII byte\<close>
  httpGetParse :: "string \<Rightarrow> Node option"
    \<comment> \<open>the document \<open>html.Parse\<close> returns for the body of \<open>http.Get(url)\<close>; \<open>None\<close> when
        either call returns an error\<close>
  PostFromJson :: "string \<Rightarrow> Post option"
    \<comment> \<open>\<open>model.PostFromJson\<close>; \<open>None\<close> is the nil it returns for undecodable input\<close>

definition ToLower :: "externals \<Rightarrow> string \<Rightarrow> string" where
  \<comment> \<open>\<open>strings.ToLower(s)\<close>\<close>
  "ToLower X s = (if isASCII s then map asciiLower s else mapToLower X s)"

definition TrimSpace :: "externals \<Rightarrow> string \<Rightarrow> string" where
  \<comment> \<open>\<open>strings.TrimSpace(s)\<close>\<close>
  "TrimSpace X s = (if isASCII s then Trim s asciiSpace else trimFuncIsSpace X s)"

definition Fields :: "externals \<Rightarrow> string \<Rightarrow> string list" where
  \<comment> \<open>\<open>strings.Fields(s)\<close>\<close>
  "Fields X s = (if isASCII s then asciiFields [] s else fieldsFuncIsSpace X s)"

section \<open>Panics\<close>

datatype panic =
    IndexOutOfRange nat nat  \<comment> \<open>index and length\<close>
  | NilPointerDereference
  | FetchFailed              \<comment> \<open>\<open>panic(err)\<close> after \<open>http.Get\<close> or \<open>html.Parse\<close>\<close>
  | TypeAssertionFailed      \<comment> \<open>\<open>x.(string)\<close> on a value that holds no string\<close>

section \<open>Package scrape\<close>

text \<open>
  The functions of \<open>github.com/yhat/scrape\<close> that \<open>main.go\<close> calls. A matcher inspects
  the node it is given, so it is a predicate on nodes. Both matchers below read a field
  of their argument, so \<open>FindAll\<close> on a nil pointer panics.
\<close>

definition scrape_Attr :: "Node \<Rightarrow> string \<Rightarrow> string" where
  "scrape_Attr n k = (case find (\<lambda>a. Key a = k) (Attr n) of Some a \<Rightarrow> Val a | None \<Rightarrow> [])"

definition scrape_ByClass :: "externals \<Rightarrow> string \<Rightarrow> Node \<Rightarrow> bool" where
  "scrape_ByClass X cls n = (cls \<in> set (Fields X (scrape_Attr n ''class'')))"

definition scrape_ByTag :: "string \<Rightarrow> Node \<Rightarrow> bool" where
  "scrape_ByTag a n = (DataAtom n = a)"

fun findAllInternal :: "NodePtr option \<Rightarrow> Node \<Rightarrow> (Node \<Rightarrow> bool) \<Rightarrow> bool \<Rightarrow> NodePtr list" where
  \<comment> \<open>the first argument is the \<open>Parent\<close> field of the node searched\<close>
  "findAllInternal par (Node t a d at cs) matcher searchNested =
     (let node = At par (Node t a d at cs);
          below = concat (map (\<lambda>c. findAllInternal (Some node) c matcher searchNested) cs)
      in if matcher (Node t a d at cs)
         then (if \<not> searchNested then [node] else node # below)
         else below)"

definition scrape_FindAll :: "NodePtr option \<Rightarrow> (Node \<Rightarrow> bool) \<Rightarrow> panic + NodePtr list" where
  "scrape_FindAll node matcher =
     (case node of
        None \<Rightarrow> Inl NilPointerDereference
      | Some p \<Rightarrow> Inr (findAllInternal (Parent p) (Deref p) matcher False))"

definition scrape_Text :: "externals \<Rightarrow> NodePtr \<Rightarrow> string" where
  \<comment> \<open>the data of the text nodes below the node, each trimmed, the empty ones dropped,
      joined by one space\<close>
  "scrape_Text X node =
     (let nodes = findAllInternal (Parent node) (Deref node) (\<lambda>n. Type n = TextNode) False;
          parts = map (\<lambda>n. Data (Deref n)) nodes
      in Join (filter (\<lambda>t. t \<noteq> []) (map (TrimSpace X) parts)) '' '')"

section \<open>Dishes\<close>

definition trimNodeName :: "string \<Rightarrow> string" where
  "trimNodeName name =
     (let trimmed = Trim name [CHR '' '', CHR 0x09, CHR 0x0A];
          trimmed = Replace trimmed ''( '' ''('';
          trimmed = Replace trimmed '' )'' '')'';
          trimmed = Replace trimmed '' ,'' '','';
          trimmed = Replace trimmed ''  '' '' ''
      in trimmed)"

record config =
  MattermostApiURL :: string
  MattermostWsURL :: string
  UserEmail :: string
  UserPassword :: string
  TeamName :: string
  DisplayName :: string
  MentionName :: string
  ChannelNameDebug :: string
  ChannelNameProduction :: string
  Favorites :: "string list"

text \<open>
  The global \<open>CONFIG\<close> is written once by \<open>readConfig\<close> and read afterwards: every
  function that reads it takes it as an argument. The array \<open>[3]string\<close> is a triple.
\<close>

record dish =
  name :: string
  prices :: "string \<times> string \<times> string"
  isVegetarian :: bool
  isVegan :: bool
  containsBeef :: bool
  containsPork :: bool
  containsFish :: bool
  containsChicken :: bool
  lactoseFree :: bool

fun isFavoriteLoop :: "string \<Rightarrow> string list \<Rightarrow> bool" where
  "isFavoriteLoop nm [] = False"
| "isFavoriteLoop nm (f # fs) = (if Contains nm f then True else isFavoriteLoop nm fs)"

definition isFavorite :: "externals \<Rightarrow> config \<Rightarrow> dish \<Rightarrow> bool" where
  "isFavorite X CONFIG d = isFavoriteLoop (ToLower X (name d)) (Favorites CONFIG)"

text \<open>
  \<open>dish.String\<close> writes to a buffer: the name cell, then one marker for each test that
  holds, then the end of the cell and the prices. \<open>dish_markers\<close> is the sequence of the
  markers written, \<open>dish_String\<close> the contents of the buffer.
\<close>

definition dish_markers :: "externals \<Rightarrow> config \<Rightarrow> dish \<Rightarrow> string list" where
  "dish_markers X CONFIG d =
     (if isFavorite X CONFIG d then ['' :heart_eyes:''] else [])
     @ (if isVegan d then ['' :sunflower:'']
        else if isVegetarian d then ['' :carrot:''] else [])
     @ (if containsBeef d then ['' :cow2:''] else [])
     @ (if containsPork d then ['' :pig2:''] else [])
     @ (if containsFish d then ['' :fish:''] else [])
     @ (if containsChicken d then ['' :rooster:''] else [])
     @ (if lactoseFree d then ['' :milk_glass:''] else [])"

definition dish_String :: "externals \<Rightarrow> config \<Rightarrow> dish \<Rightarrow> string" where
  "dish_String X CONFIG d =
     ''| '' @ name d @ '' |''
     @ concat (dish_markers X CONFIG d)
     @ '' |''
     @ (case prices d of (p0, p1, p2) \<Rightarrow> '' '' @ p0 @ '' // '' @ p1 @ '' // '' @ p2 @ '' |'')"

fun storePrice ::
  "string \<times> string \<times> string \<Rightarrow> nat \<Rightarrow> string \<Rightarrow> panic + string \<times> string \<times> string" where
  \<comment> \<open>\<open>prices[i] = v\<close> on an array of three strings\<close>
  "storePrice (p0, p1, p2) i v =
     (if i = 0 then Inr (v, p1, p2)
      else if i = 1 then Inr (p0, v, p2)
      else if i = 2 then Inr (p0, p1, v)
      else Inl (IndexOutOfRange i 3))"

fun priceLoop ::
  "externals \<Rightarrow> nat \<Rightarrow> NodePtr list \<Rightarrow> string \<times> string \<times> string
     \<Rightarrow> panic + string \<times> string \<times> string" where
  \<comment> \<open>\<open>for i, price := range priceNodes\<close>, from index \<open>i\<close> on\<close>
  "priceLoop X i [] ps = Inr ps"
| "priceLoop X i (price # rest) ps =
     (case storePrice ps i (Replace (scrape_Text X price) [CHR 0xC2, CHR 0xA0] [])  of
        Inl e \<Rightarrow> Inl e
      | Inr ps' \<Rightarrow> priceLoop X (Suc i) rest ps')"

definition iconSwitch :: "externals \<Rightarrow> NodePtr \<Rightarrow> dish \<Rightarrow> dish" where
  \<comment> \<open>the \<open>switch\<close> on the lowered title of one image; the flags of the record stand for
      the local variables of the same names\<close>
  "iconSwitch X img d =
     (let title = ToLower X (scrape_Attr (Deref img) ''title'') in
      if title = ''vegetarisch'' then d\<lparr>isVegetarian := True\<rparr>
      else if title = ''vegan'' then d\<lparr>isVegan := True\<rparr>
      else if title = ''mit rind'' then d\<lparr>containsBeef := True\<rparr>
      else if title = ''mit schwein'' then d\<lparr>containsPork := True\<rparr>
      else if title = ''mit fisch'' then d\<lparr>containsFish := True\<rparr>
      else if title = ''mit gefl'' @ [CHR 0xC3, CHR 0xBC] @ ''gel'' then d\<lparr>containsChicken := True\<rparr>
      else if title = ''laktosefrei'' then d\<lparr>lactoseFree := True\<rparr>
      else d)"

definition dishFromNode :: "externals \<Rightarrow> NodePtr \<Rightarrow> panic + dish" where
  "dishFromNode X node =
     (let nm = trimNodeName (scrape_Text X node) in
      case scrape_FindAll (Parent node) (scrape_ByClass X ''price'') of
        Inl e \<Rightarrow> Inl e
      | Inr priceNodes \<Rightarrow>
     (case scrape_FindAll (Some node) (scrape_ByTag ''img'') of
        Inl e \<Rightarrow> Inl e
      | Inr imgNodes \<Rightarrow>
     (case priceLoop X 0 priceNodes ([], [], []) of
        Inl e \<Rightarrow> Inl e
      | Inr ps \<Rightarrow>
          (let locals = fold (iconSwitch X) imgNodes
                 \<lparr>name = nm, prices = ps, isVegetarian = False, isVegan = False,
                  containsBeef = False, containsPork = False, containsFish = False,
                  containsChicken = False, lactoseFree = False\<rparr>
           in Inr (locals\<lparr>isVegetarian := isVegetarian locals \<or> isVegan locals\<rparr>)))))"

fun dishesLoop :: "externals \<Rightarrow> NodePtr list \<Rightarrow> panic + dish list" where
  "dishesLoop X [] = Inr []"
| "dishesLoop X (dn # rest) =
     (case dishFromNode X dn of
        Inl e \<Rightarrow> Inl e
      | Inr d \<Rightarrow> (case dishesLoop X rest of Inl e \<Rightarrow> Inl e | Inr ds \<Rightarrow> Inr (d # ds)))"

definition getCanteenPlan :: "externals \<Rightarrow> string \<Rightarrow> panic + dish list" where
  "getCanteenPlan X url =
     (case httpGetParse X url of
        None \<Rightarrow> Inl FetchFailed
      | Some root \<Rightarrow>
          (case scrape_FindAll (Some (At None root)) (scrape_ByClass X ''dish-description'') of
             Inl e \<Rightarrow> Inl e
           | Inr dishNodes \<Rightarrow> dishesLoop X dishNodes))"

section \<open>Regular expressions\<close>

text \<open>
  The fragment of Go's \<open>regexp\<close> syntax that the five patterns of \<open>handleCommand\<close>
  use: literals, concatenation, alternation (with the empty alternative), \<open>^\<close> and \<open>$\<close>
  (begin and end of the text, no flag being set) and the class \<open>\W\<close>. Groups, capturing
  or not, do not change whether a text matches. \<open>\W\<close> is every rune outside
  \<open>[0-9A-Za-z_]\<close>; a byte outside ASCII only occurs in such a rune, so the class is
  decided on single bytes.
\<close>

datatype regexp =
    Lit char
  | Empty
  | BeginText
  | EndText
  | NotWord
  | Cat regexp regexp
  | Alt regexp regexp

definition isWordChar :: "char \<Rightarrow> bool" where
  "isWordChar c =
     (let n = (of_char c :: nat)
      in (48 \<le> n \<and> n \<le> 57) \<or> (65 \<le> n \<and> n \<le> 90) \<or> n = 95 \<or> (97 \<le> n \<and> n \<le> 122))"

text \<open>
  A position in the text is the pair of "nothing lies before it" and the bytes from it
  on. \<open>matchAt r p\<close> lists the positions at which a match of \<open>r\<close> begun at \<open>p\<close>
  can end.
\<close>

fun matchAt :: "regexp \<Rightarrow> bool \<times> string \<Rightarrow> (bool \<times> string) list" where
  "matchAt (Lit c) (b, s) = (case s of [] \<Rightarrow> [] | x # xs \<Rightarrow> if x = c then [(False, xs)] else [])"
| "matchAt Empty p = [p]"
| "matchAt BeginText (b, s) = (if b then [(b, s)] else [])"
| "matchAt EndText (b, s) = (if s = [] then [(b, s)] else [])"
| "matchAt NotWord (b, s) =
     (case s of [] \<Rightarrow> [] | x # xs \<Rightarrow> if isWordChar x then [] else [(False, xs)])"
| "matchAt (Cat r1 r2) p = concat (map (matchAt r2) (matchAt r1 p))"
| "matchAt (Alt r1 r2) p = matchAt r1 p @ matchAt r2 p"

fun search :: "regexp \<Rightarrow> bool \<Rightarrow> string \<Rightarrow> bool" where
  \<comment> \<open>a match begins at the position given or at a later one\<close>
  "search r b [] = (matchAt r (b, []) \<noteq> [])"
| "search r b (x # xs) = (matchAt r (b, x # xs) \<noteq> [] \<or> search r False xs)"

definition MatchString :: "regexp \<Rightarrow> string \<Rightarrow> bool" where
  \<comment> \<open>\<open>regexp.MatchString(pattern, s)\<close> for a pattern that compiles: the text contains a
      match\<close>
  "MatchString r s = search r True s"

fun Str :: "string \<Rightarrow> regexp" where
  \<comment> \<open>a run of literals\<close>
  "Str [] = Empty"
| "Str (c # cs) = Cat (Lit c) (Str cs)"

definition pattern_alive :: regexp where
  \<comment> \<open>\<open>(?:^|\W)((a|A)live|(r|R)unning|(u|U)p)(?:$|\W)\<close>\<close>
  "pattern_alive =
     Cat (Alt BeginText NotWord)
      (Cat (Alt (Cat (Alt (Lit CHR ''a'') (Lit CHR ''A'')) (Str ''live''))
           (Alt (Cat (Alt (Lit CHR ''r'') (Lit CHR ''R'')) (Str ''unning''))
                (Cat (Alt (Lit CHR ''u'') (Lit CHR ''U'')) (Str ''p''))))
       (Alt EndText NotWord))"

definition pattern_today :: regexp where
  \<comment> \<open>\<open>(?:^|\W)((h|H)eute|(t|T)oday)(?:$|\W)\<close>\<close>
  "pattern_today =
     Cat (Alt BeginText NotWord)
      (Cat (Alt (Cat (Alt (Lit CHR ''h'') (Lit CHR ''H'')) (Str ''eute''))
                (Cat (Alt (Lit CHR ''t'') (Lit CHR ''T'')) (Str ''oday'')))
       (Alt EndText NotWord))"

definition pattern_tomorrow :: regexp where
  \<comment> \<open>\<open>(?:^|\W)((m|M)orgen|(t|T)omorrow)(?:$|\W)\<close>\<close>
  "pattern_tomorrow =
     Cat (Alt BeginText NotWord)
      (Cat (Alt (Cat (Alt (Lit CHR ''m'') (Lit CHR ''M'')) (Str ''orgen''))
                (Cat (Alt (Lit CHR ''t'') (Lit CHR ''T'')) (Str ''omorrow'')))
       (Alt EndText NotWord))"

definition pattern_legend :: regexp where
  \<comment> \<open>\<open>(?:^|\W)((l|L)egend(|e))(?:$|\W)\<close>\<close>
  "pattern_legend =
     Cat (Alt BeginText NotWord)
      (Cat (Cat (Alt (Lit CHR ''l'') (Lit CHR ''L'')) (Cat (Str ''egend'') (Alt Empty (Lit CHR ''e''))))
       (Alt EndText NotWord))"

definition pattern_help :: regexp where
  \<comment> \<open>\<open>(?:^|\W)((c|C)ommmand|(h|H)elp)(?:$|\W)\<close>\<close>
  "pattern_help =
     Cat (Alt BeginText NotWord)
      (Cat (Alt (Cat (Alt (Lit CHR ''c'') (Lit CHR ''C'')) (Str ''ommmand''))
                (Cat (Alt (Lit CHR ''h'') (Lit CHR ''H'')) (Str ''elp'')))
       (Alt EndText NotWord))"

section \<open>The bot\<close>

text \<open>
  What a handler does to the world is the list of posts it asks the server to create, in
  order; a panic ends the process. Console output is not part of the model, and neither
  is the answer of the server to \<open>CreatePost\<close>, which \<open>sendMessage\<close> only prints.
\<close>

text \<open>
  Of the bot the handlers read \<open>bot.user.Id\<close> and \<open>bot.channelDebug.Id\<close>, which
  \<open>newMensaBotFromConfig\<close> sets before the bot listens. Of an event they read the
  field \<open>Event\<close>, the entry \<open>post\<close> of the map \<open>Data\<close> (whose values are of type
  \<open>interface{}\<close>: a string or something else) and \<open>Broadcast.ChannelId\<close>.
\<close>

record mensabot =
  user_Id :: string
  channelDebug_Id :: string
  channelProduction_Id :: string

datatype DataValue = StringValue string | OtherValue

record WebSocketEvent =
  Event :: string
  EventData :: "string \<Rightarrow> DataValue option"
  Broadcast_ChannelId :: string

definition CANTEEN_URL_TODAY :: string where
  "CANTEEN_URL_TODAY = ''http://speiseplan.studierendenwerk-hamburg.de/de/580/2018/0/''"

definition CANTEEN_URL_TOMORROW :: string where
  "CANTEEN_URL_TOMORROW = ''http://speiseplan.studierendenwerk-hamburg.de/de/580/2018/99/''"

definition WEBSOCKET_EVENT_POSTED :: string where
  "WEBSOCKET_EVENT_POSTED = ''posted''"

definition NL :: string where
  "NL = [CHR 0x0A]"

definition sendMessage :: "string \<Rightarrow> string \<Rightarrow> string \<Rightarrow> Post list" where
  "sendMessage msg channelID replyToID =
     [\<lparr>Id = [], UserId = [], ChannelId = channelID, RootId = replyToID, Message = msg\<rparr>]"

definition writeDishes ::
  "externals \<Rightarrow> config \<Rightarrow> dish list \<Rightarrow> string \<Rightarrow> string \<Rightarrow> string \<Rightarrow> Post list" where
  "writeDishes X CONFIG dishes prefix channelID replyToID =
     (let buf = [prefix @ NL @ NL,
                 ''| Essen | Features | Preise |'' @ NL,
                 ''| -- | -- | -- |'' @ NL]
                @ map (\<lambda>d. dish_String X CONFIG d @ NL) dishes
      in sendMessage (concat buf) channelID replyToID)"

definition writeLegend :: "string \<Rightarrow> string \<Rightarrow> Post list" where
  "writeLegend channelID replyToID =
     (let msg = ''**Legende:**'' @ NL @
                '':heart_eyes: = Lieblingsgericht'' @ NL @
                '':sunflower: = Veganes Gericht'' @ NL @
                '':carrot: = Vegetarisches Gericht'' @ NL @
                '':cow2: = Enth'' @ [CHR 0xC3, CHR 0xA4] @ ''lt Rindfleisch'' @ NL @
                '':pig2: = Enth'' @ [CHR 0xC3, CHR 0xA4] @ ''lt Schweinefleisch'' @ NL @
                '':fish: = Enth'' @ [CHR 0xC3, CHR 0xA4] @ ''lt Fisch'' @ NL @
                '':rooster: = Enth'' @ [CHR 0xC3, CHR 0xA4] @ ''lt Gefl'' @ [CHR 0xC3, CHR 0xBC] @ ''gel'' @ NL @
                '':milk_glass: = Laktose**freies**(!) Gericht'' @ NL
      in sendMessage msg channelID replyToID)"

definition writeCommands :: "string \<Rightarrow> string \<Rightarrow> Post list" where
  "writeCommands channelID replyToID = sendMessage ''TODO: Implement commands..'' channelID replyToID"

datatype intent = Alive | Today | Tomorrow | Legend | Help | Fallback

definition branch :: "string \<Rightarrow> intent" where
  \<comment> \<open>the chain of tests of \<open>handleCommand\<close>, in its order\<close>
  "branch msg =
     (if MatchString pattern_alive msg then Alive
      else if MatchString pattern_today msg then Today
      else if MatchString pattern_tomorrow msg then Tomorrow
      else if MatchString pattern_legend msg then Legend
      else if MatchString pattern_help msg then Help
      else Fallback)"

definition handleCommand :: "externals \<Rightarrow> config \<Rightarrow> Post \<Rightarrow> panic + Post list" where
  "handleCommand X CONFIG post =
     (case branch (Message post) of
        Alive \<Rightarrow>
          Inr (sendMessage (''Yes I'' @ [CHR 0x27] @ ''m up and running!'') (ChannelId post) (Id post))
      | Today \<Rightarrow>
          (case getCanteenPlan X CANTEEN_URL_TODAY of
             Inl e \<Rightarrow> Inl e
           | Inr dishes \<Rightarrow>
               Inr (writeDishes X CONFIG dishes ''**Heute gibt es:**'' (ChannelId post) (Id post)))
      | Tomorrow \<Rightarrow>
          (case getCanteenPlan X CANTEEN_URL_TOMORROW of
             Inl e \<Rightarrow> Inl e
           | Inr dishes \<Rightarrow>
               Inr (writeDishes X CONFIG dishes ''**Morgen gibt es:**'' (ChannelId post) (Id post)))
      | Legend \<Rightarrow> Inr (writeLegend (ChannelId post) (Id post))
      | Help \<Rightarrow> Inr (writeCommands (ChannelId post) (Id post))
      | Fallback \<Rightarrow>
          Inr (sendMessage ''What does this even mean?!'' (ChannelId post) (Id post)))"

definition handleWebSocketEvent ::
  "externals \<Rightarrow> config \<Rightarrow> mensabot \<Rightarrow> WebSocketEvent option \<Rightarrow> panic + Post list" where
  "handleWebSocketEvent X CONFIG mbot event =
     (case event of
        None \<Rightarrow> Inr []
      | Some ev \<Rightarrow>
          if Event ev \<noteq> WEBSOCKET_EVENT_POSTED then Inr []
          else (case EventData ev ''post'' of
                  None \<Rightarrow> Inl TypeAssertionFailed
                | Some OtherValue \<Rightarrow> Inl TypeAssertionFailed
                | Some (StringValue js) \<Rightarrow>
                    (case PostFromJson X js of
                       None \<Rightarrow> Inr []
                     | Some post \<Rightarrow>
                         if UserId post = user_Id mbot then Inr []
                         else if HasPrefix (Message post) (MentionName CONFIG)
                           then handleCommand X CONFIG post
                         else if Broadcast_ChannelId ev = channelDebug_Id mbot
                           then handleCommand X CONFIG post
                         else Inr [])))"

section \<open>Words of a pattern\<close>

text \<open>
  For the proofs. A regular expression built from literals, the empty expression,
  concatenation and alternation only is \<open>plain\<close>, and \<open>words\<close> lists the strings it
  matches. \<open>wholeWord ws s\<close> says that one of the strings \<open>ws\<close> occurs in \<open>s\<close> as a
  whole word: the beginning of \<open>s\<close> or a byte outside \<open>[0-9A-Za-z_]\<close> lies before the
  occurrence, and the end of \<open>s\<close> or such a byte after it.
\<close>

fun plain :: "regexp \<Rightarrow> bool" where
  "plain (Lit c) = True"
| "plain Empty = True"
| "plain (Cat r1 r2) = (plain r1 \<and> plain r2)"
| "plain (Alt r1 r2) = (plain r1 \<and> plain r2)"
| "plain _ = False"

fun words :: "regexp \<Rightarrow> string list" where
  "words (Lit c) = [[c]]"
| "words Empty = [[]]"
| "words (Cat r1 r2) = concat (map (\<lambda>u. map (\<lambda>v. u @ v) (words r2)) (words r1))"
| "words (Alt r1 r2) = words r1 @ words r2"
| "words _ = []"

abbreviation wholeWord :: "string list \<Rightarrow> string \<Rightarrow> bool" where
  "wholeWord ws s \<equiv>
     (\<exists>pre w post. s = pre @ w @ post \<and> w \<in> set ws
        \<and> (pre = [] \<or> \<not> isWordChar (last pre))
        \<and> (post = [] \<or> \<not> isWordChar (hd post)))"

section \<open>Example inputs\<close>

text \<open>
  Concrete values at which the theorems below are instantiated: parameters that leave
  non-ASCII strings unchanged, serve no page and decode every text to a post of the bot
  itself; a configuration; a table row with a dish cell, its icons and its price cells.
\<close>

definition exampleExternals :: externals where
  "exampleExternals =
     \<lparr>mapToLower = (\<lambda>s. s), trimFuncIsSpace = (\<lambda>s. s), fieldsFuncIsSpace = (\<lambda>s. [s]),
      httpGetParse = (\<lambda>url. None),
      PostFromJson = (\<lambda>js. Some \<lparr>Id = ''p1'', UserId = ''mensabot'', ChannelId = ''debug'',
                                    RootId = [], Message = js\<rparr>)\<rparr>"

definition exampleConfig :: config where
  "exampleConfig =
     \<lparr>MattermostApiURL = [], MattermostWsURL = [], UserEmail = [], UserPassword = [],
      TeamName = [], DisplayName = ''MensaBot'', MentionName = ''@mensabot'',
      ChannelNameDebug = ''debug'', ChannelNameProduction = ''town-square'',
      Favorites = [''curry'']\<rparr>"

definition exampleBot :: mensabot where
  "exampleBot = \<lparr>user_Id = ''mensabot'', channelDebug_Id = ''debug'',
                 channelProduction_Id = ''town-square''\<rparr>"

definition exampleEvent :: "string \<Rightarrow> WebSocketEvent" where
  \<comment> \<open>a post with the text given, in the debug channel\<close>
  "exampleEvent js =
     \<lparr>Event = ''posted'', EventData = [''post'' \<mapsto> StringValue js],
      Broadcast_ChannelId = ''debug''\<rparr>"

definition exampleText :: "string \<Rightarrow> Node" where
  "exampleText s = Node TextNode [] s [] []"

definition examplePriceCell :: "string \<Rightarrow> Node" where
  "examplePriceCell s =
     Node ElementNode ''td'' ''td'' [\<lparr>Namespace = [], Key = ''class'', Val = ''price''\<rparr>]
       [exampleText s]"

definition exampleIcon :: "string \<Rightarrow> Node" where
  "exampleIcon title =
     Node ElementNode ''img'' ''img'' [\<lparr>Namespace = [], Key = ''title'', Val = title\<rparr>] []"

definition exampleDishCell :: "string list \<Rightarrow> Node" where
  "exampleDishCell titles =
     Node ElementNode ''td'' ''td''
       [\<lparr>Namespace = [], Key = ''class'', Val = ''dish-description''\<rparr>]
       (exampleText '' Chicken Curry Bowl '' # map exampleIcon titles)"

definition exampleRow :: "string list \<Rightarrow> string list \<Rightarrow> Node" where
  "exampleRow titles ps =
     Node ElementNode ''tr'' ''tr'' [] (exampleDishCell titles # map examplePriceCell ps)"

definition exampleDish :: "string list \<Rightarrow> string list \<Rightarrow> NodePtr" where
  \<comment> \<open>the dish cell of a table row, with the icons and the price cells given\<close>
  "exampleDish titles ps = At (Some (At None (exampleRow titles ps))) (exampleDishCell titles)"

section \<open>What the patterns match\<close>

lemma matchAt_plain:
  "plain r \<Longrightarrow>
   (b', t) \<in> set (matchAt r (b, s)) \<longleftrightarrow> (\<exists>w \<in> set (words r). s = w @ t \<and> b' = (b \<and> w = []))"
proof (induction r arbitrary: b s b' t)
  case (Lit c)
  then show ?case by (cases s) auto
next
  case (Cat r1 r2)
  then have p1: "plain r1" and p2: "plain r2" by simp_all
  show ?case
  proof
    assume "(b', t) \<in> set (matchAt (Cat r1 r2) (b, s))"
    then obtain b1 t1 where m1: "(b1, t1) \<in> set (matchAt r1 (b, s))"
      and m2: "(b', t) \<in> set (matchAt r2 (b1, t1))" by auto
    from m1 Cat.IH(1)[OF p1] obtain u where u: "u \<in> set (words r1)" "s = u @ t1" "b1 = (b \<and> u = [])"
      by blast
    from m2 Cat.IH(2)[OF p2] obtain v where v: "v \<in> set (words r2)" "t1 = v @ t" "b' = (b1 \<and> v = [])"
      by blast
    from u v have "u @ v \<in> set (words (Cat r1 r2))" by auto
    moreover from u v have "s = (u @ v) @ t" "b' = (b \<and> u @ v = [])" by auto
    ultimately show "\<exists>w \<in> set (words (Cat r1 r2)). s = w @ t \<and> b' = (b \<and> w = [])" by blast
  next
    assume "\<exists>w \<in> set (words (Cat r1 r2)). s = w @ t \<and> b' = (b \<and> w = [])"
    then obtain u v where u: "u \<in> set (words r1)" and v: "v \<in> set (words r2)"
      and s: "s = (u @ v) @ t" and b': "b' = (b \<and> u @ v = [])" by auto
    from u s Cat.IH(1)[OF p1, of "b \<and> u = []" "v @ t" b s]
    have m1: "(b \<and> u = [], v @ t) \<in> set (matchAt r1 (b, s))" by auto
    from v b' Cat.IH(2)[OF p2, of b' t "b \<and> u = []" "v @ t"]
    have m2: "(b', t) \<in> set (matchAt r2 (b \<and> u = [], v @ t))" by auto
    from m1 m2 show "(b', t) \<in> set (matchAt (Cat r1 r2) (b, s))" by auto
  qed
next
  case (Alt r1 r2)
  then show ?case by auto
qed auto

lemma concat_map_ne: "concat (map f xs) \<noteq> [] \<longleftrightarrow> (\<exists>x \<in> set xs. f x \<noteq> [])"
  by (induction xs) auto

lemma right_boundary:
  "matchAt (Alt EndText NotWord) (b, t) \<noteq> [] \<longleftrightarrow> (t = [] \<or> \<not> isWordChar (hd t))"
  by (cases t) auto

lemma left_boundary:
  "p \<in> set (matchAt (Alt BeginText NotWord) (b, s)) \<longleftrightarrow>
     (b \<and> p = (b, s)) \<or> (\<exists>c t. s = c # t \<and> \<not> isWordChar c \<and> p = (False, t))"
  by (cases s) auto

lemma token_then_boundary:
  assumes "plain r"
  shows "matchAt (Cat r (Alt EndText NotWord)) (b, s) \<noteq> [] \<longleftrightarrow>
         (\<exists>w \<in> set (words r). \<exists>t. s = w @ t \<and> (t = [] \<or> \<not> isWordChar (hd t)))"
proof -
  have "matchAt (Cat r (Alt EndText NotWord)) (b, s) \<noteq> [] \<longleftrightarrow>
        (\<exists>q \<in> set (matchAt r (b, s)). matchAt (Alt EndText NotWord) q \<noteq> [])"
    by (simp only: matchAt.simps concat_map_ne)
  also have "\<dots> \<longleftrightarrow> (\<exists>b' t. (b', t) \<in> set (matchAt r (b, s)) \<and> (t = [] \<or> \<not> isWordChar (hd t)))"
    using right_boundary by (metis surj_pair)
  also have "\<dots> \<longleftrightarrow> (\<exists>w \<in> set (words r). \<exists>t. s = w @ t \<and> (t = [] \<or> \<not> isWordChar (hd t)))"
    using matchAt_plain[OF assms] by blast
  finally show ?thesis .
qed

lemma framed_matchAt:
  assumes "plain r"
  shows "matchAt (Cat (Alt BeginText NotWord) (Cat r (Alt EndText NotWord))) (b, s) \<noteq> [] \<longleftrightarrow>
         (\<exists>w \<in> set (words r). \<exists>t. ((b \<and> s = w @ t) \<or> (\<exists>c. s = c # w @ t \<and> \<not> isWordChar c))
             \<and> (t = [] \<or> \<not> isWordChar (hd t)))"
proof -
  let ?B = "Cat r (Alt EndText NotWord)"
  have "matchAt (Cat (Alt BeginText NotWord) ?B) (b, s) \<noteq> [] \<longleftrightarrow>
        (\<exists>p \<in> set (matchAt (Alt BeginText NotWord) (b, s)). matchAt ?B p \<noteq> [])"
    by (simp only: matchAt.simps(6) concat_map_ne)
  also have "\<dots> \<longleftrightarrow> (b \<and> matchAt ?B (b, s) \<noteq> []) \<or>
                     (\<exists>c t. s = c # t \<and> \<not> isWordChar c \<and> matchAt ?B (False, t) \<noteq> [])"
    by (auto simp: left_boundary)
  also have "\<dots> \<longleftrightarrow> (\<exists>w \<in> set (words r). \<exists>t. ((b \<and> s = w @ t) \<or> (\<exists>c. s = c # w @ t \<and> \<not> isWordChar c))
             \<and> (t = [] \<or> \<not> isWordChar (hd t)))"
    unfolding token_then_boundary[OF assms] by (auto; force)
  finally show ?thesis .
qed

lemma search_framed:
  assumes "plain r"
  shows "search (Cat (Alt BeginText NotWord) (Cat r (Alt EndText NotWord))) b s \<longleftrightarrow>
         (\<exists>pre w post. s = pre @ w @ post \<and> w \<in> set (words r)
            \<and> (if pre = [] then b else \<not> isWordChar (last pre))
            \<and> (post = [] \<or> \<not> isWordChar (hd post)))"
    (is "search ?R b s \<longleftrightarrow> ?occ b s")
proof (induction s arbitrary: b)
  case Nil
  show ?case unfolding search.simps framed_matchAt[OF assms] by auto
next
  case (Cons x xs)
  have here: "matchAt ?R (b, x # xs) \<noteq> [] \<longleftrightarrow>
        (\<exists>w \<in> set (words r). \<exists>t. ((b \<and> x # xs = w @ t) \<or> (xs = w @ t \<and> \<not> isWordChar x))
             \<and> (t = [] \<or> \<not> isWordChar (hd t)))"
    unfolding framed_matchAt[OF assms] by auto
  show ?case
  proof
    assume "search ?R b (x # xs)"
    then consider (a) "matchAt ?R (b, x # xs) \<noteq> []" | (b) "search ?R False xs" by auto
    then show "?occ b (x # xs)"
    proof cases
      case a
      with here obtain w t where w: "w \<in> set (words r)" and rb: "t = [] \<or> \<not> isWordChar (hd t)"
        and d: "(b \<and> x # xs = w @ t) \<or> (xs = w @ t \<and> \<not> isWordChar x)" by blast
      from d show ?thesis
      proof
        assume "b \<and> x # xs = w @ t"
        then have "x # xs = [] @ w @ t \<and> (if ([]::string) = [] then b else \<not> isWordChar (last []))"
          by simp
        with w rb show ?thesis by blast
      next
        assume "xs = w @ t \<and> \<not> isWordChar x"
        then have "x # xs = [x] @ w @ t \<and> (if [x] = [] then b else \<not> isWordChar (last [x]))"
          by simp
        with w rb show ?thesis by blast
      qed
    next
      case b
      with Cons.IH[of False] obtain pre w post where o: "xs = pre @ w @ post" "w \<in> set (words r)"
        "pre \<noteq> []" "\<not> isWordChar (last pre)" "post = [] \<or> \<not> isWordChar (hd post)"
        by (auto split: if_splits)
      then have "x # xs = (x # pre) @ w @ post
          \<and> (if x # pre = [] then b else \<not> isWordChar (last (x # pre)))" by simp
      with o(2,5) show ?thesis by blast
    qed
  next
    assume "?occ b (x # xs)"
    then obtain pre w post where o: "x # xs = pre @ w @ post" "w \<in> set (words r)"
      "if pre = [] then b else \<not> isWordChar (last pre)" "post = [] \<or> \<not> isWordChar (hd post)"
      by blast
    show "search ?R b (x # xs)"
    proof (cases pre)
      case Nil
      with o have "matchAt ?R (b, x # xs) \<noteq> []" unfolding here by auto
      then show ?thesis by simp
    next
      case (Cons y pre')
      with o(1) have y: "y = x" and xs: "xs = pre' @ w @ post" by simp_all
      show ?thesis
      proof (cases "pre' = []")
        case True
        with Cons y xs o have "matchAt ?R (b, x # xs) \<noteq> []" unfolding here by auto
        then show ?thesis by simp
      next
        case False
        with Cons o(3) have "\<not> isWordChar (last pre')" by simp
        with False xs o(2,4) have "?occ False xs" by auto
        with Cons.IH[of False] have "search ?R False xs" by simp
        then show ?thesis by simp
      qed
    qed
  qed
qed

lemma MatchString_framed:
  assumes "plain r"
  shows "MatchString (Cat (Alt BeginText NotWord) (Cat r (Alt EndText NotWord))) s \<longleftrightarrow>
         wholeWord (words r) s"
  unfolding MatchString_def search_framed[OF assms]
  by (intro arg_cong[where f=Ex] ext) auto

lemma alive_match:
  "MatchString pattern_alive s \<longleftrightarrow>
   wholeWord [''alive'', ''Alive'', ''running'', ''Running'', ''up'', ''Up''] s"
  unfolding pattern_alive_def by (subst MatchString_framed) simp_all

lemma today_match:
  "MatchString pattern_today s \<longleftrightarrow> wholeWord [''heute'', ''Heute'', ''today'', ''Today''] s"
  unfolding pattern_today_def by (subst MatchString_framed) simp_all

lemma tomorrow_match:
  "MatchString pattern_tomorrow s \<longleftrightarrow>
   wholeWord [''morgen'', ''Morgen'', ''tomorrow'', ''Tomorrow''] s"
  unfolding pattern_tomorrow_def by (subst MatchString_framed) simp_all

lemma legend_match:
  "MatchString pattern_legend s \<longleftrightarrow>
   wholeWord [''legend'', ''legende'', ''Legend'', ''Legende''] s"
  unfolding pattern_legend_def by (subst MatchString_framed) simp_all

lemma help_match:
  "MatchString pattern_help s \<longleftrightarrow>
   wholeWord [''commmand'', ''Commmand'', ''help'', ''Help''] s"
  unfolding pattern_help_def by (subst MatchString_framed) simp_all

lemma branch_chain:
  "branch msg =
     (if wholeWord [''alive'', ''Alive'', ''running'', ''Running'', ''up'', ''Up''] msg then Alive
      else if wholeWord [''heute'', ''Heute'', ''today'', ''Today''] msg then Today
      else if wholeWord [''morgen'', ''Morgen'', ''tomorrow'', ''Tomorrow''] msg then Tomorrow
      else if wholeWord [''legend'', ''legende'', ''Legend'', ''Legende''] msg then Legend
      else if wholeWord [''commmand'', ''Commmand'', ''help'', ''Help''] msg then Help
      else Fallback)"
  unfolding alive_match[symmetric] today_match[symmetric] tomorrow_match[symmetric]
    legend_match[symmetric] help_match[symmetric]
  by (simp add: branch_def)

section \<open>The dispatcher\<close>

text \<open>
  Claim C2. The help branch is meant for the words \<open>command\<close> and \<open>help\<close>, as the comment
  in \<open>handleCommand\<close> says, but its pattern spells the first word \<open>ommmand\<close>, with three
  \<open>m\<close>. A message whose only token is \<open>command\<close> therefore matches no pattern and gets
  the fallback answer; \<open>help\<close>, and the misspelt \<open>commmand\<close>, reach the help branch.
\<close>

theorem command_falls_back:
  "branch ''@mensabot command'' = Fallback
   \<and> handleCommand X CONFIG \<lparr>Id = i, UserId = u, ChannelId = c, RootId = r,
                              Message = ''@mensabot command''\<rparr>
     = Inr (sendMessage ''What does this even mean?!'' c i)
   \<and> branch ''@mensabot help'' = Help
   \<and> branch ''@mensabot commmand'' = Help"
proof -
  have "branch ''@mensabot command'' = Fallback" "branch ''@mensabot help'' = Help"
    "branch ''@mensabot commmand'' = Help" by code_simp+
  then show ?thesis by (simp add: handleCommand_def)
qed

text \<open>
  Claim C3, as amended. Matching is delimited by word boundaries, and only the first
  letter of a token may be in either case: the alive branch is selected exactly for the
  messages that contain \<open>alive\<close>, \<open>Alive\<close>, \<open>running\<close>, \<open>Running\<close>, \<open>up\<close> or \<open>Up\<close>
  as a whole word. An occurrence inside a longer word does not count, and neither does
  a token written in capitals.
\<close>

theorem alive_branch_iff:
  "branch msg = Alive \<longleftrightarrow>
   wholeWord [''alive'', ''Alive'', ''running'', ''Running'', ''up'', ''Up''] msg"
  unfolding alive_match[symmetric] by (simp add: branch_def)

text \<open>The message \<open>ALIVE\<close> does not select the alive branch.\<close>

theorem alive_uppercase_counterexample: "branch ''ALIVE'' \<noteq> Alive"
  by code_simp

theorem alive_branch_witness:
  "branch ''is it Up?'' = Alive
   \<and> \<not> wholeWord [''alive'', ''Alive'', ''running'', ''Running'', ''up'', ''Up''] ''upload''"
proof
  have "''is it Up?'' = ''is it '' @ ''Up'' @ ''?''
        \<and> ''Up'' \<in> set [''alive'', ''Alive'', ''running'', ''Running'', ''up'', ''Up'']
        \<and> (''is it '' = [] \<or> \<not> isWordChar (last ''is it ''))
        \<and> (''?'' = [] \<or> \<not> isWordChar (hd ''?''))"
    by (simp add: isWordChar_def)
  then have "wholeWord [''alive'', ''Alive'', ''running'', ''Running'', ''up'', ''Up''] ''is it Up?''"
    by blast
  then show "branch ''is it Up?'' = Alive"
    using alive_branch_iff[of "''is it Up?''"] by blast
next
  have "branch ''upload'' \<noteq> Alive" by code_simp
  then show "\<not> wholeWord [''alive'', ''Alive'', ''running'', ''Running'', ''up'', ''Up''] ''upload''"
    using alive_branch_iff[of "''upload''"] by blast
qed



section \<open>Names\<close>

text \<open>
  Claim C4, as amended. Name normalization maps \<open>(  x )\<close>, with two spaces after the
  parenthesis, to \<open>( x)\<close>: the one pass over \<open>( \<close> removes one of the two spaces, the
  pass over \<open> )\<close> removes the space before the closing parenthesis, and the last pass
  finds no double space left. It is \<open>( x )\<close>, with single spaces, that becomes
  \<open>(x)\<close>.
\<close>

theorem trimNodeName_example:
  "trimNodeName ''(  x )'' = ''( x)'' \<and> trimNodeName ''( x )'' = ''(x)''"
  by (simp add: trimNodeName_def Trim_def HasPrefix_def)

theorem trimNodeName_example_counterexample: "trimNodeName ''(  x )'' \<noteq> ''(x)''"
  by (simp add: trimNodeName_def Trim_def HasPrefix_def)

section \<open>Building a dish\<close>

lemma storePrice_last: "priceLoop X 3 (n # ns) ps = Inl (IndexOutOfRange 3 3)"
  by (cases ps) simp

lemma priceLoop_overflow:
  "i \<le> 3 \<Longrightarrow> 3 - i < length ns \<Longrightarrow> priceLoop X i ns ps = Inl (IndexOutOfRange 3 3)"
proof (induction ns arbitrary: i ps)
  case Nil
  then show ?case by simp
next
  case (Cons n ns)
  obtain p0 p1 p2 where ps: "ps = (p0, p1, p2)" by (cases ps) auto
  show ?case
  proof (cases "i = 3")
    case True
    then show ?thesis by (simp only: storePrice_last)
  next
    case False
    with Cons.prems have i: "i < 3" by simp
    then have st: "\<exists>ps'. storePrice ps i (Replace (scrape_Text X n) [CHR 0xC2, CHR 0xA0] []) = Inr ps'"
      unfolding ps by auto
    from i Cons.prems have "Suc i \<le> 3" "3 - Suc i < length ns" by auto
    from Cons.IH[OF this] st show ?thesis by auto
  qed
qed

lemma FindAll_Some: "scrape_FindAll (Some p) m = Inr (findAllInternal (Parent p) (Deref p) m False)"
  by (simp add: scrape_FindAll_def)

text \<open>
  Claim C1. When the parent container of a dish node has more than three price cells,
  the loop over them stores the fourth text at index 3 of an array of three strings:
  \<open>dishFromNode\<close> panics with an index out of range, and no Dish is built.
\<close>

theorem dishFromNode_fourth_price:
  assumes "scrape_FindAll (Parent node) (scrape_ByClass X ''price'') = Inr priceNodes"
    and "3 < length priceNodes"
  shows "dishFromNode X node = Inl (IndexOutOfRange 3 3)"
proof -
  from assms(2) have "priceLoop X 0 priceNodes ([], [], []) = Inl (IndexOutOfRange 3 3)"
    by (intro priceLoop_overflow) simp_all
  with assms(1) show ?thesis
    by (simp add: dishFromNode_def FindAll_Some)
qed

theorem dishFromNode_fourth_price_witness:
  "dishFromNode exampleExternals (exampleDish [] [''2,50'', ''3,70'', ''4,60'', ''5,00''])
     = Inl (IndexOutOfRange 3 3)"
proof -
  let ?node = "exampleDish [] [''2,50'', ''3,70'', ''4,60'', ''5,00'']"
  let ?ns = "findAllInternal None (exampleRow [] [''2,50'', ''3,70'', ''4,60'', ''5,00''])
               (scrape_ByClass exampleExternals ''price'') False"
  have 1: "scrape_FindAll (Parent ?node) (scrape_ByClass exampleExternals ''price'') = Inr ?ns"
    by (simp add: exampleDish_def FindAll_Some)
  have 2: "3 < length ?ns" by code_simp
  from dishFromNode_fourth_price[OF 1 2] show ?thesis .
qed

text \<open>
  The nodes \<open>getCanteenPlan\<close> hands to \<open>dishFromNode\<close> are found below the root of the
  parsed document, which has no attributes: each of them has a parent.
\<close>

lemma findAllInternal_Parent:
  "p \<in> set (findAllInternal par n m nested) \<Longrightarrow> p = At par n \<or> Parent p \<noteq> None"
proof (induction par n m nested arbitrary: p rule: findAllInternal.induct)
  case (1 par t a d at cs matcher searchNested)
  let ?node = "At par (Node t a d at cs)"
  from "1.prems" consider "p = ?node"
    | c where "c \<in> set cs" "p \<in> set (findAllInternal (Some ?node) c matcher searchNested)"
    by (auto simp: Let_def split: if_splits)
  then show ?case
  proof cases
    case 1
    then show ?thesis by simp
  next
    case 2
    from "1.IH"[OF refl 2(1) 2(2)] show ?thesis by auto
  qed
qed

lemma document_not_ByClass: "Attr root = [] \<Longrightarrow> \<not> scrape_ByClass X cls root"
  by (simp add: scrape_ByClass_def scrape_Attr_def Fields_def isASCII_def)

lemma dish_nodes_have_parent:
  assumes "Attr root = []"
    and "scrape_FindAll (Some (At None root)) (scrape_ByClass X ''dish-description'') = Inr dishNodes"
    and "dn \<in> set dishNodes"
  shows "Parent dn \<noteq> None"
proof -
  obtain t a d at cs where root: "root = Node t a d at cs" by (cases root)
  from assms(2,3) have m: "dn \<in> set (findAllInternal None root (scrape_ByClass X ''dish-description'') False)"
    by (auto simp: scrape_FindAll_def)
  have "dn \<noteq> At None root"
  proof
    assume "dn = At None root"
    with m document_not_ByClass[OF assms(1), of X "''dish-description''"]
    have "At None root \<in> set (concat (map (\<lambda>c. findAllInternal (Some (At None root)) c
             (scrape_ByClass X ''dish-description'') False) cs))"
      unfolding root by (simp add: Let_def)
    then obtain c where "At None root \<in> set (findAllInternal (Some (At None root)) c
             (scrape_ByClass X ''dish-description'') False)" by auto
    from findAllInternal_Parent[OF this] show False by auto
  qed
  with findAllInternal_Parent[OF m] show ?thesis by simp
qed

text \<open>
  Claim C5, as amended. For every dish node that has a parent container without price
  cells and that has no icon images, building the Dish does not fail: the Dish has the
  normalized text as its name, three empty price slots and all seven flags false.
\<close>

theorem dishFromNode_bare:
  assumes "Parent node = Some parent"
    and "scrape_FindAll (Some parent) (scrape_ByClass X ''price'') = Inr []"
    and "scrape_FindAll (Some node) (scrape_ByTag ''img'') = Inr []"
  shows "dishFromNode X node =
           Inr \<lparr>name = trimNodeName (scrape_Text X node), prices = ([], [], []),
                isVegetarian = False, isVegan = False, containsBeef = False,
                containsPork = False, containsFish = False, containsChicken = False,
                lactoseFree = False\<rparr>"
  using assms by (simp add: dishFromNode_def)

text \<open>For a dish node without a parent the search for price cells dereferences nil.\<close>

theorem dishFromNode_no_parent_counterexample:
  "dishFromNode exampleExternals (At None (exampleDishCell [])) = Inl NilPointerDereference"
  by (simp add: dishFromNode_def scrape_FindAll_def)

theorem dishFromNode_bare_witness:
  "dishFromNode exampleExternals (exampleDish [] []) =
           Inr \<lparr>name = ''Chicken Curry Bowl'', prices = ([], [], []),
                isVegetarian = False, isVegan = False, containsBeef = False,
                containsPork = False, containsFish = False, containsChicken = False,
                lactoseFree = False\<rparr>"
proof -
  have 1: "Parent (exampleDish [] []) = Some (At None (exampleRow [] []))"
    by (simp add: exampleDish_def)
  have 2: "scrape_FindAll (Some (At None (exampleRow [] []))) (scrape_ByClass exampleExternals ''price'') = Inr []"
    by code_simp
  have 3: "scrape_FindAll (Some (exampleDish [] [])) (scrape_ByTag ''img'') = Inr []"
    by code_simp
  have 4: "trimNodeName (scrape_Text exampleExternals (exampleDish [] [])) = ''Chicken Curry Bowl''"
    by code_simp
  from dishFromNode_bare[OF 1 2 3] 4 show ?thesis by simp
qed

lemma fold_iconSwitch_isVegan:
  "isVegan (fold (iconSwitch X) imgs d) \<longleftrightarrow>
     isVegan d \<or> (\<exists>img \<in> set imgs. ToLower X (scrape_Attr (Deref img) ''title'') = ''vegan'')"
  by (induction imgs arbitrary: d) (auto simp: iconSwitch_def Let_def)

text \<open>
  Claim C7. A Dish built from a node one of whose icon titles is \<open>vegan\<close>, in any
  letter case, is vegetarian, and its row has exactly one diet marker, the sunflower:
  the carrot is not written.
\<close>

theorem vegan_dish:
  assumes "dishFromNode X node = Inr d"
    and "scrape_FindAll (Some node) (scrape_ByTag ''img'') = Inr imgNodes"
    and "img \<in> set imgNodes"
    and "ToLower X (scrape_Attr (Deref img) ''title'') = ''vegan''"
  shows "isVegetarian d
    \<and> filter (\<lambda>m. m = '' :sunflower:'' \<or> m = '' :carrot:'') (dish_markers X CONFIG d)
        = ['' :sunflower:'']
    \<and> dish_String X CONFIG d =
        ''| '' @ name d @ '' |''
        @ (if isFavorite X CONFIG d then '' :heart_eyes:'' else [])
        @ '' :sunflower:''
        @ (if containsBeef d then '' :cow2:'' else [])
        @ (if containsPork d then '' :pig2:'' else [])
        @ (if containsFish d then '' :fish:'' else [])
        @ (if containsChicken d then '' :rooster:'' else [])
        @ (if lactoseFree d then '' :milk_glass:'' else [])
        @ '' |''
        @ (case prices d of (p0, p1, p2) \<Rightarrow> '' '' @ p0 @ '' // '' @ p1 @ '' // '' @ p2 @ '' |'')"
proof -
  from assms(3,4) have v: "\<And>d0. isVegan (fold (iconSwitch X) imgNodes d0)"
    unfolding fold_iconSwitch_isVegan by blast
  from assms(1,2) v have "isVegan d \<and> isVegetarian d"
    by (auto simp: dishFromNode_def Let_def split: sum.splits)
  then show ?thesis
    by (simp add: dish_markers_def dish_String_def)
qed

theorem vegan_dish_witness:
  "\<exists>d. dishFromNode exampleExternals (exampleDish [''Vegan''] [''2,50'', ''3,70'', ''4,60'']) = Inr d
     \<and> isVegetarian d
     \<and> dish_String exampleExternals exampleConfig d
         = ''| Chicken Curry Bowl | :heart_eyes: :sunflower: | 2,50 // 3,70 // 4,60 |''"
proof -
  let ?node = "exampleDish [''Vegan''] [''2,50'', ''3,70'', ''4,60'']"
  let ?img = "At (Some ?node) (exampleIcon ''Vegan'')"
  let ?d = "\<lparr>name = ''Chicken Curry Bowl'', prices = (''2,50'', ''3,70'', ''4,60''),
             isVegetarian = True, isVegan = True, containsBeef = False,
             containsPork = False, containsFish = False, containsChicken = False,
             lactoseFree = False\<rparr>"
  have 1: "dishFromNode exampleExternals ?node = Inr ?d" by code_simp
  have 2: "scrape_FindAll (Some ?node) (scrape_ByTag ''img'') = Inr [?img]" by code_simp
  have 3: "?img \<in> set [?img]" by simp
  have 4: "ToLower exampleExternals (scrape_Attr (Deref ?img) ''title'') = ''vegan''" by code_simp
  have 5: "isFavorite exampleExternals exampleConfig ?d" by code_simp
  from vegan_dish[OF 1 2 3 4, of exampleConfig] 5
  have "isVegetarian ?d \<and> dish_String exampleExternals exampleConfig ?d
         = ''| Chicken Curry Bowl | :heart_eyes: :sunflower: | 2,50 // 3,70 // 4,60 |''"
    by simp
  with 1 show ?thesis by blast
qed

section \<open>Favorites and the table\<close>

lemma Contains_iff: "Contains s sub \<longleftrightarrow> (\<exists>u v. s = u @ sub @ v)"
proof (induction s)
  case Nil
  show ?case by auto
next
  case (Cons c cs)
  have pre: "HasPrefix (c # cs) sub \<longleftrightarrow> (\<exists>v. c # cs = sub @ v)"
    unfolding HasPrefix_def by (metis append_eq_conv_conj append_take_drop_id)
  show ?case
  proof
    assume "Contains (c # cs) sub"
    then consider "HasPrefix (c # cs) sub" | "Contains cs sub" by auto
    then show "\<exists>u v. c # cs = u @ sub @ v"
    proof cases
      case 1
      with pre obtain v where "c # cs = [] @ sub @ v" by auto
      then show ?thesis by blast
    next
      case 2
      with Cons.IH obtain u v where "cs = u @ sub @ v" by blast
      then have "c # cs = (c # u) @ sub @ v" by simp
      then show ?thesis by blast
    qed
  next
    assume "\<exists>u v. c # cs = u @ sub @ v"
    then obtain u v where e: "c # cs = u @ sub @ v" by blast
    show "Contains (c # cs) sub"
    proof (cases u)
      case Nil
      with e pre have "HasPrefix (c # cs) sub" by auto
      then show ?thesis by simp
    next
      case (Cons a u')
      with e have "cs = u' @ sub @ v" by simp
      with Cons.IH show ?thesis by auto
    qed
  qed
qed

lemma isFavoriteLoop_iff: "isFavoriteLoop nm fs \<longleftrightarrow> (\<exists>f \<in> set fs. Contains nm f)"
  by (induction fs) auto

text \<open>
  Claim C8. A dish is a favorite exactly when its lowered name contains one of the
  configured strings; so the favorite \<open>curry\<close> matches the name \<open>Chicken Curry Bowl\<close>.
\<close>

theorem isFavorite_iff:
  "(isFavorite X CONFIG d \<longleftrightarrow>
      (\<exists>f \<in> set (Favorites CONFIG). \<exists>u v. ToLower X (name d) = u @ f @ v))
   \<and> (name d = ''Chicken Curry Bowl'' \<and> ''curry'' \<in> set (Favorites CONFIG)
        \<longrightarrow> isFavorite X CONFIG d)"
proof
  show iff: "isFavorite X CONFIG d \<longleftrightarrow>
      (\<exists>f \<in> set (Favorites CONFIG). \<exists>u v. ToLower X (name d) = u @ f @ v)"
    by (simp add: isFavorite_def isFavoriteLoop_iff Contains_iff)
  show "name d = ''Chicken Curry Bowl'' \<and> ''curry'' \<in> set (Favorites CONFIG)
        \<longrightarrow> isFavorite X CONFIG d"
  proof
    assume a: "name d = ''Chicken Curry Bowl'' \<and> ''curry'' \<in> set (Favorites CONFIG)"
    have "ToLower X ''Chicken Curry Bowl'' = ''chicken curry bowl''"
      by code_simp
    then have "ToLower X (name d) = ''chicken '' @ ''curry'' @ '' bowl''" using a by simp
    with a show "isFavorite X CONFIG d" unfolding iff by blast
  qed
qed

theorem isFavorite_witness:
  "isFavorite exampleExternals exampleConfig
     \<lparr>name = ''Chicken Curry Bowl'', prices = (''2,50'', ''3,70'', ''4,60''),
      isVegetarian = False, isVegan = False, containsBeef = False, containsPork = False,
      containsFish = False, containsChicken = True, lactoseFree = False\<rparr>"
proof -
  let ?d = "\<lparr>name = ''Chicken Curry Bowl'', prices = (''2,50'', ''3,70'', ''4,60''),
      isVegetarian = False, isVegan = False, containsBeef = False, containsPork = False,
      containsFish = False, containsChicken = True, lactoseFree = False\<rparr>"
  have h: "name ?d = ''Chicken Curry Bowl'' \<and> ''curry'' \<in> set (Favorites exampleConfig)"
    by (simp add: exampleConfig_def)
  from isFavorite_iff[of exampleExternals exampleConfig ?d] h show ?thesis by blast
qed

text \<open>
  Claim C9. For the empty list of dishes \<open>writeDishes\<close> sends one message: the header
  line, an empty line, the header row of the table and the separator row, and no row of
  a dish.
\<close>

theorem writeDishes_empty:
  "writeDishes X CONFIG [] prefix channelID replyToID =
     [\<lparr>Id = [], UserId = [], ChannelId = channelID, RootId = replyToID,
       Message = prefix @ [CHR 0x0A] @ [CHR 0x0A]
                 @ ''| Essen | Features | Preise |'' @ [CHR 0x0A]
                 @ ''| -- | -- | -- |'' @ [CHR 0x0A]\<rparr>]"
  by (simp add: writeDishes_def sendMessage_def NL_def)

section \<open>Events\<close>

lemma handleCommand_sends: "handleCommand X CONFIG post \<noteq> Inr []"
  by (simp add: handleCommand_def sendMessage_def writeDishes_def writeLegend_def
      writeCommands_def Let_def split: intent.splits sum.splits)

text \<open>
  Claim C10. A posted event whose post was written by the bot itself is dropped: no post
  is created, whatever the text of the message and the channel. The dispatcher was not
  called, since it never returns without a post or a panic.
\<close>

theorem own_posts_ignored:
  assumes "Event ev = WEBSOCKET_EVENT_POSTED"
    and "EventData ev ''post'' = Some (StringValue js)"
    and "PostFromJson X js = Some post"
    and "UserId post = user_Id mbot"
  shows "handleWebSocketEvent X CONFIG mbot (Some ev) = Inr []
         \<and> handleCommand X CONFIG post \<noteq> Inr []"
  using assms by (simp add: handleWebSocketEvent_def handleCommand_sends)

theorem own_posts_ignored_witness:
  "handleWebSocketEvent exampleExternals exampleConfig exampleBot
       (Some (exampleEvent ''@mensabot heute'')) = Inr []
   \<and> HasPrefix ''@mensabot heute'' (MentionName exampleConfig)
   \<and> Broadcast_ChannelId (exampleEvent ''@mensabot heute'') = channelDebug_Id exampleBot"
proof -
  let ?post = "\<lparr>Id = ''p1'', UserId = ''mensabot'', ChannelId = ''debug'',
                RootId = [], Message = ''@mensabot heute''\<rparr>"
  have 1: "Event (exampleEvent ''@mensabot heute'') = WEBSOCKET_EVENT_POSTED"
    by (simp add: exampleEvent_def WEBSOCKET_EVENT_POSTED_def)
  have 2: "EventData (exampleEvent ''@mensabot heute'') ''post'' = Some (StringValue ''@mensabot heute'')"
    by (simp add: exampleEvent_def)
  have 3: "PostFromJson exampleExternals ''@mensabot heute'' = Some ?post"
    by (simp add: exampleExternals_def)
  have 4: "UserId ?post = user_Id exampleBot" by (simp add: exampleBot_def)
  have 5: "HasPrefix ''@mensabot heute'' (MentionName exampleConfig)
    \<and> Broadcast_ChannelId (exampleEvent ''@mensabot heute'') = channelDebug_Id exampleBot"
    by (simp add: HasPrefix_def exampleConfig_def exampleEvent_def exampleBot_def)
  from own_posts_ignored[OF 1 2 3 4] 5 show ?thesis by simp
qed

end
